theory Spec2Isabelle
  imports Main "HOL-Library.Sublist"
begin

section \<open>JavaScript numbers held by the counter\<close>

text \<open>
  The state of \<open>Counter\<close> is a JavaScript Number, an IEEE 754 double. Starting from
  \<open>useState(0)\<close> the code only ever computes \<open>count + 1\<close>, \<open>count * 5\<close> and \<open>0\<close>, so
  the values that occur are integer-valued doubles and the infinities; \<open>NaN\<close> is kept so
  that addition and multiplication are total as in the language. \<open>Fin n\<close> stands for the
  double whose value is the integer \<open>n\<close> (the sign of zero is not tracked: no operation
  of the program tells \<open>-0\<close> from \<open>0\<close>).
\<close>

datatype number = Fin int | PosInf | NegInf | NaN

text \<open>The number of binary digits of a positive integer.\<close>

function bitlen :: "int \<Rightarrow> nat" where
  "bitlen n = (if n \<le> 0 then 0 else Suc (bitlen (n div 2)))"
  by pat_completeness auto
termination
  by (relation "measure nat") auto

declare bitlen.simps [simp del]

text \<open>
  Rounding of a magnitude to a significand of 53 bits, to nearest, ties to the even
  significand.
\<close>

definition round53 :: "int \<Rightarrow> int" where
  "round53 m =
     (if bitlen m \<le> 53 then m
      else let e = bitlen m - 53; q = m div 2 ^ e; r = m mod 2 ^ e
           in if 2 ^ e < 2 * r \<or> (2 * r = 2 ^ e \<and> odd q) then (q + 1) * 2 ^ e
              else q * 2 ^ e)"

text \<open>The double nearest to an integer; magnitudes that round to \<open>2^1024\<close> overflow.\<close>

definition round_double :: "int \<Rightarrow> number" where
  "round_double n =
     (let m = round53 \<bar>n\<bar>
      in if 2 ^ 1024 \<le> m then (if n < 0 then NegInf else PosInf)
         else Fin (sgn n * m))"

fun negative :: "number \<Rightarrow> bool" where
  "negative (Fin a) = (a < 0)"
| "negative NegInf = True"
| "negative _ = False"

text \<open>The operators \<open>+\<close> and \<open>*\<close> of the language on these values.\<close>

fun js_add :: "number \<Rightarrow> number \<Rightarrow> number" where
  "js_add (Fin a) (Fin b) = round_double (a + b)"
| "js_add NaN _ = NaN"
| "js_add _ NaN = NaN"
| "js_add PosInf NegInf = NaN"
| "js_add NegInf PosInf = NaN"
| "js_add PosInf _ = PosInf"
| "js_add _ PosInf = PosInf"
| "js_add NegInf _ = NegInf"
| "js_add _ NegInf = NegInf"

fun js_mul :: "number \<Rightarrow> number \<Rightarrow> number" where
  "js_mul (Fin a) (Fin b) = round_double (a * b)"
| "js_mul NaN _ = NaN"
| "js_mul _ NaN = NaN"
| "js_mul x y =
     (if x = Fin 0 \<or> y = Fin 0 then NaN
      else if negative x = negative y then PosInf else NegInf)"

section \<open>Values, property bags and view trees\<close>

text \<open>
  A value of the language, as far as the two components pass values around. \<open>'f\<close> is the
  type of function values. The object passed to a component function is a bag of named
  values; reading a name that is absent gives \<open>undefined\<close>, reading any name of
  \<open>undefined\<close> or \<open>null\<close> throws.
\<close>

datatype 'f jsval =
    Undefined
  | Null
  | Bool bool
  | Num number
  | Str string
  | Fn 'f
  | Obj "(string \<times> 'f jsval) list"

text \<open>
  What can be thrown: the language's \<open>TypeError\<close>, and the two errors the framework
  raises itself, for an \<open>onClick\<close> value that is not a function and for an object
  used as a child.
\<close>

datatype error = TypeError | InvalidListener | InvalidChild

text \<open>
  A bag of named values is written as the list of its \<open>name = value\<close> pairs in source
  order; a name written twice keeps its last value.
\<close>

definition prop_of :: "(string \<times> 'f jsval) list \<Rightarrow> string \<Rightarrow> 'f jsval" where
  "prop_of ps k = (case map_of (rev ps) k of Some v \<Rightarrow> v | None \<Rightarrow> Undefined)"

text \<open>
  \<open>member v k\<close> is the expression \<open>v.k\<close>. The two names the program reads are on no
  built-in prototype, so a primitive or a function gives \<open>undefined\<close> for them.
\<close>

fun member :: "'f jsval \<Rightarrow> string \<Rightarrow> error + 'f jsval" where
  "member Undefined k = Inl TypeError"
| "member Null k = Inl TypeError"
| "member (Obj ps) k = Inr (prop_of ps k)"
| "member _ k = Inr Undefined"

text \<open>
  What a component function returns: a host element with its attributes and children, an
  element of the component \<open>CounterButton\<close> with its properties, literal text, or an
  embedded expression \<open>{e}\<close>.
\<close>

datatype 'f vnode =
    Host string "(string \<times> 'f jsval) list" "'f vnode list"
  | CounterButtonElement "(string \<times> 'f jsval) list"
  | Text string
  | Embed "'f jsval"

section \<open>CounterButton\<close>

text \<open>
  \<^verbatim>\<open>
  export default function CounterButton(properties) {
    return (
      <button onClick={properties.numberFunction}>
        {properties.buttonLabel}
      </button>
    );
  }
  \<close>
\<close>

definition CounterButton :: "'f jsval \<Rightarrow> error + 'f vnode" where
  "CounterButton properties =
     (case member properties ''numberFunction'' of
        Inl e \<Rightarrow> Inl e
      | Inr f \<Rightarrow>
          (case member properties ''buttonLabel'' of
             Inl e \<Rightarrow> Inl e
           | Inr l \<Rightarrow> Inr (Host ''button'' [(''onClick'', f)] [Embed l])))"

section \<open>Counter\<close>

text \<open>
  The state cell of the one \<open>useState\<close> call of a mounted \<open>Counter\<close>: empty before the
  first render. A function value of the program is a zero-argument callback that acts on
  this cell.
\<close>

type_synonym store = "number option"
type_synonym callback = "store \<Rightarrow> store"

text \<open>
  \<open>useState(initial)\<close> returns the current value and the setter; the first call stores
  the initial value. Calling the setter with a value (not an updater function) makes that
  value the state.
\<close>

definition setter :: "number \<Rightarrow> callback" where
  "setter v = (\<lambda>s. Some v)"

definition useState :: "number \<Rightarrow> store \<Rightarrow> (number \<times> (number \<Rightarrow> callback)) \<times> store" where
  "useState initial s =
     (case s of
        None \<Rightarrow> ((initial, setter), Some initial)
      | Some v \<Rightarrow> ((v, setter), Some v))"

text \<open>
  The three arrow functions close over the \<open>count\<close> and \<open>setCount\<close> of the render that
  creates them:
  \<^verbatim>\<open>
  const addNumber = () => { setCount(count + 1); };
  const multNumber = () => { setCount(count * 5); };
  const resetNumber = () => { setCount(0); };
  \<close>
\<close>

definition addNumber :: "number \<Rightarrow> (number \<Rightarrow> callback) \<Rightarrow> callback" where
  "addNumber count setCount = (\<lambda>s. setCount (js_add count (Fin 1)) s)"

definition multNumber :: "number \<Rightarrow> (number \<Rightarrow> callback) \<Rightarrow> callback" where
  "multNumber count setCount = (\<lambda>s. setCount (js_mul count (Fin 5)) s)"

definition resetNumber :: "(number \<Rightarrow> callback) \<Rightarrow> callback" where
  "resetNumber setCount = (\<lambda>s. setCount (Fin 0) s)"

definition Counter :: "store \<Rightarrow> callback vnode \<times> store" where
  "Counter s =
     (let ((count, setCount), s') = useState (Fin 0) s
      in (Host ''div'' [(''className'', Str ''counter'')]
            [Host ''h2'' [] [Text ''React Counter''],
             Host ''p'' [(''className'', Str ''click_desc'')]
               [Text ''Your count: '', Host ''span'' [] [Embed (Num count)]],
             Host ''div'' [(''className'', Str ''button_container'')]
               [CounterButtonElement
                  [(''numberFunction'', Fn (addNumber count setCount)),
                   (''buttonLabel'', Str ''++'')],
                CounterButtonElement
                  [(''numberFunction'', Fn (multNumber count setCount)),
                   (''buttonLabel'', Str ''*=5'')],
                CounterButtonElement
                  [(''numberFunction'', Fn (resetNumber setCount)),
                   (''buttonLabel'', Str ''=0'')]]],
          s'))"

section \<open>The view runtime\<close>

text \<open>
  The framework (React, with its DOM renderer) is not part of the repository; the
  components meet it at three points: it calls a component function to render, it calls
  \<open>CounterButton\<close> with the properties of each \<open>CounterButton\<close> element and mounts
  what is returned, and on a click it dispatches to the \<open>onClick\<close> value of the element
  that was clicked, with the state cell the setter writes.
\<close>

fun collect :: "(error + 'a) list \<Rightarrow> error + 'a list" where
  "collect [] = Inr []"
| "collect (x # xs) =
     (case x of
        Inl e \<Rightarrow> Inl e
      | Inr v \<Rightarrow> (case collect xs of Inl e \<Rightarrow> Inl e | Inr vs \<Rightarrow> Inr (v # vs)))"

text \<open>
  What an embedded value puts on screen: a string or a number is displayed as it is;
  \<open>undefined\<close>, \<open>null\<close>, a boolean and a function display nothing; an object is
  refused by the framework (``Objects are not valid as a React child'').
\<close>

fun shown :: "'f jsval \<Rightarrow> error + 'f jsval list" where
  "shown (Str t) = Inr [Str t]"
| "shown (Num n) = Inr [Num n]"
| "shown (Obj ps) = Inl InvalidChild"
| "shown _ = Inr []"

text \<open>Mounting a tree of host elements: every embedded child is looked at.\<close>

fun place :: "'f vnode \<Rightarrow> error + 'f vnode" where
  "place (Host tag attrs cs) =
     (case collect (map place cs) of
        Inl e \<Rightarrow> Inl e
      | Inr cs' \<Rightarrow> Inr (Host tag attrs cs'))"
| "place (Embed v) = (case shown v of Inl e \<Rightarrow> Inl e | Inr vs \<Rightarrow> Inr (Embed v))"
| "place t = Inr t"

text \<open>
  Rendering the children: every \<open>CounterButton\<close> element is replaced by what the
  component function returns for an object holding the element's properties, and that
  tree is mounted.
\<close>

fun expand :: "'f vnode \<Rightarrow> error + 'f vnode" where
  "expand (Host tag attrs cs) =
     (case collect (map expand cs) of
        Inl e \<Rightarrow> Inl e
      | Inr cs' \<Rightarrow> Inr (Host tag attrs cs'))"
| "expand (CounterButtonElement props) =
     (case CounterButton (Obj props) of Inl e \<Rightarrow> Inl e | Inr t \<Rightarrow> place t)"
| "expand (Text t) = Inr (Text t)"
| "expand (Embed v) = place (Embed v)"

text \<open>The \<open>onClick\<close> values of a rendered tree, in document order.\<close>

fun listeners :: "'f vnode \<Rightarrow> 'f jsval list" where
  "listeners (Host tag attrs cs) =
     (case map_of (rev attrs) ''onClick'' of Some v \<Rightarrow> [v] | None \<Rightarrow> [])
     @ concat (map listeners cs)"
| "listeners _ = []"

text \<open>What a tree displays, in document order: its literal texts and embedded values.\<close>

fun leaves :: "'f vnode \<Rightarrow> 'f jsval list" where
  "leaves (Host tag attrs cs) = concat (map leaves cs)"
| "leaves (CounterButtonElement props) = []"
| "leaves (Text t) = [Str t]"
| "leaves (Embed v) = (case shown v of Inl e \<Rightarrow> [] | Inr vs \<Rightarrow> vs)"

fun numbers :: "'f jsval list \<Rightarrow> number list" where
  "numbers [] = []"
| "numbers (Num n # vs) = n # numbers vs"
| "numbers (_ # vs) = numbers vs"

definition displayed :: "'f vnode \<Rightarrow> number list" where
  "displayed t = numbers (leaves t)"

text \<open>The host elements of a tree with a given tag, in document order.\<close>

fun elements :: "string \<Rightarrow> 'f vnode \<Rightarrow> 'f vnode list" where
  "elements tag (Host tag' attrs cs) =
     (if tag' = tag then [Host tag' attrs cs] else []) @ concat (map (elements tag) cs)"
| "elements tag _ = []"

text \<open>The properties handed to the \<open>CounterButton\<close> elements of a tree, in order.\<close>

fun bindings :: "'f vnode \<Rightarrow> (string \<times> 'f jsval) list list" where
  "bindings (Host tag attrs cs) = concat (map bindings cs)"
| "bindings (CounterButtonElement props) = [props]"
| "bindings _ = []"

text \<open>
  Activation dispatch, as React 17 and later do it. An \<open>onClick\<close> value that is
  \<open>undefined\<close> or \<open>null\<close> is no listener: nothing is called and nothing is thrown. A
  function is called. A truthy value that is not a function is refused by the framework
  when the click is dispatched; a falsy one (\<open>false\<close>, \<open>0\<close>, \<open>NaN\<close>, the empty
  string) is called, which throws.
\<close>

fun truthy :: "'f jsval \<Rightarrow> bool" where
  "truthy Undefined = False"
| "truthy Null = False"
| "truthy (Bool b) = b"
| "truthy (Num n) = (n \<noteq> Fin 0 \<and> n \<noteq> NaN)"
| "truthy (Str t) = (t \<noteq> [])"
| "truthy (Fn f) = True"
| "truthy (Obj ps) = True"

fun dispatch :: "callback jsval \<Rightarrow> store \<Rightarrow> error + store" where
  "dispatch (Fn f) s = Inr (f s)"
| "dispatch Undefined s = Inr s"
| "dispatch Null s = Inr s"
| "dispatch v s = Inl (if truthy v then InvalidListener else TypeError)"

text \<open>
  A mounted \<open>Counter\<close>: its state cell and the tree of its last render. A render reads
  the cell; nothing else does.
\<close>

record mounted =
  cell :: store
  tree :: "callback vnode"

definition render :: "store \<Rightarrow> error + mounted" where
  "render s =
     (case Counter s of
        (t, s') \<Rightarrow>
          (case expand t of
             Inl e \<Rightarrow> Inl e
           | Inr t' \<Rightarrow> Inr \<lparr>cell = s', tree = t'\<rparr>))"

definition mount :: "error + mounted" where
  "mount = render None"

text \<open>
  The three buttons of the rendered counter, in document order, and what the user can
  do with them.
\<close>

datatype activation = increment | scale | reset

fun slot :: "activation \<Rightarrow> nat" where
  "slot increment = 0"
| "slot scale = 1"
| "slot reset = 2"

text \<open>
  An activation alone: the click is dispatched to the \<open>onClick\<close> value of the button,
  as the last render left it; the tree is not rendered again. A button that is not on screen cannot be
  clicked, and nothing changes.
\<close>

definition fire :: "activation \<Rightarrow> mounted \<Rightarrow> error + mounted" where
  "fire a i =
     (let ls = listeners (tree i)
      in if slot a < length ls then
           (case dispatch (ls ! slot a) (cell i) of
              Inl e \<Rightarrow> Inl e
            | Inr s \<Rightarrow> Inr (i\<lparr>cell := s\<rparr>))
         else Inr i)"

fun fire_all :: "activation list \<Rightarrow> mounted \<Rightarrow> error + mounted" where
  "fire_all [] i = Inr i"
| "fire_all (a # as) i =
     (case fire a i of Inl e \<Rightarrow> Inl e | Inr i' \<Rightarrow> fire_all as i')"

text \<open>
  A click as the runtime handles it: the activation, then a render with the cell as the
  activation left it, before the next click is dispatched.
\<close>

definition click :: "activation \<Rightarrow> mounted \<Rightarrow> error + mounted" where
  "click a i = (case fire a i of Inl e \<Rightarrow> Inl e | Inr i' \<Rightarrow> render (cell i'))"

fun run :: "activation list \<Rightarrow> mounted \<Rightarrow> error + mounted" where
  "run [] i = Inr i"
| "run (a # as) i = (case click a i of Inl e \<Rightarrow> Inl e | Inr i' \<Rightarrow> run as i')"

definition session :: "activation list \<Rightarrow> error + mounted" where
  "session as = (case mount of Inl e \<Rightarrow> Inl e | Inr i \<Rightarrow> run as i)"

text \<open>The numbers on display once the clicks of a session have been handled.\<close>

definition display_after :: "activation list \<Rightarrow> error + number list" where
  "display_after as =
     (case session as of Inl e \<Rightarrow> Inl e | Inr i \<Rightarrow> Inr (displayed (tree i)))"

text \<open>
  The tree on screen after a render that read \<open>c\<close> from the cell, with the three
  \<open>CounterButton\<close> elements rendered, and the mounted counter right after that render
  (\<open>render_Some\<close> below).
\<close>

definition view :: "number \<Rightarrow> callback vnode" where
  "view c =
     Host ''div'' [(''className'', Str ''counter'')]
       [Host ''h2'' [] [Text ''React Counter''],
        Host ''p'' [(''className'', Str ''click_desc'')]
          [Text ''Your count: '', Host ''span'' [] [Embed (Num c)]],
        Host ''div'' [(''className'', Str ''button_container'')]
          [Host ''button'' [(''onClick'', Fn (addNumber c setter))] [Embed (Str ''++'')],
           Host ''button'' [(''onClick'', Fn (multNumber c setter))] [Embed (Str ''*=5'')],
           Host ''button'' [(''onClick'', Fn (resetNumber setter))] [Embed (Str ''=0'')]]]"

definition rendered :: "number \<Rightarrow> mounted" where
  "rendered c = \<lparr>cell = Some c, tree = view c\<rparr>"

text \<open>
  Several activations dispatched before the next render, then that render. React renders
  after each click before it dispatches the next one (\<open>click\<close>); this is the schedule
  on which more than one activation reaches the callbacks of one render.
\<close>

definition batch :: "activation list \<Rightarrow> mounted \<Rightarrow> error + mounted" where
  "batch as i = (case fire_all as i of Inl e \<Rightarrow> Inl e | Inr i' \<Rightarrow> render (cell i'))"


section \<open>The transitions as the specification words them\<close>

text \<open>
  On integers: increment is \<open>next = current + 1\<close>, scale is \<open>next = current * 5\<close>, reset
  is \<open>next = 0\<close>; a sequence of activations is folded left to right from \<open>0\<close>.
\<close>

fun transition :: "activation \<Rightarrow> int \<Rightarrow> int" where
  "transition increment c = c + 1"
| "transition scale c = c * 5"
| "transition reset c = 0"

definition fold_transitions :: "activation list \<Rightarrow> int" where
  "fold_transitions as = foldl (\<lambda>c a. transition a c) 0 as"

section \<open>Exact arithmetic below \<open>2^53\<close>\<close>

lemma bitlen_le: "n < 2 ^ k \<Longrightarrow> bitlen n \<le> k"
proof (induction k arbitrary: n)
  case 0
  then have "n \<le> 0" by simp
  then show ?case by (simp add: bitlen.simps)
next
  case (Suc k)
  show ?case
  proof (cases "n \<le> 0")
    case True
    then show ?thesis by (simp add: bitlen.simps)
  next
    case False
    from Suc.prems have "n div 2 < 2 ^ k" by simp
    then have "bitlen (n div 2) \<le> k" by (rule Suc.IH)
    with False show ?thesis by (subst bitlen.simps) simp
  qed
qed

lemma round53_exact: "m < 2 ^ 53 \<Longrightarrow> round53 m = m"
  by (simp add: round53_def bitlen_le)

lemma round_double_exact:
  assumes "\<bar>n\<bar> < 2 ^ 53"
  shows "round_double n = Fin n"
proof -
  have r: "round53 \<bar>n\<bar> = \<bar>n\<bar>" using assms by (rule round53_exact)
  have "\<bar>n\<bar> < 2 ^ 1024"
    using assms by (rule less_trans) simp
  then have "\<not> 2 ^ 1024 \<le> \<bar>n\<bar>" by simp
  moreover have "sgn n * \<bar>n\<bar> = n" by (simp add: mult_sgn_abs)
  ultimately show ?thesis by (simp add: round_double_def r)
qed

section \<open>One render, one activation, one click\<close>

lemma render_Some: "render (Some c) = Inr (rendered c)"
  by (simp add: render_def Counter_def useState_def rendered_def view_def CounterButton_def
      prop_of_def)

lemma mount_rendered: "mount = Inr (rendered (Fin 0))"
  by (simp add: mount_def render_def Counter_def useState_def rendered_def view_def
      CounterButton_def prop_of_def)

lemma listeners_view:
  "listeners (view c) =
     [Fn (addNumber c setter), Fn (multNumber c setter), Fn (resetNumber setter)]"
  by (simp add: view_def)

lemma displayed_view: "displayed (view c) = [c]"
  by (simp add: displayed_def view_def)

lemma fire_increment:
  "fire increment \<lparr>cell = s, tree = view c\<rparr> =
     Inr \<lparr>cell = Some (js_add c (Fin 1)), tree = view c\<rparr>"
  by (simp add: fire_def listeners_view addNumber_def setter_def)

lemma fire_scale:
  "fire scale \<lparr>cell = s, tree = view c\<rparr> =
     Inr \<lparr>cell = Some (js_mul c (Fin 5)), tree = view c\<rparr>"
  by (simp add: fire_def listeners_view multNumber_def setter_def)

lemma fire_reset:
  "fire reset \<lparr>cell = s, tree = view c\<rparr> = Inr \<lparr>cell = Some (Fin 0), tree = view c\<rparr>"
  by (simp add: fire_def listeners_view resetNumber_def setter_def)

lemmas fire_view = fire_increment fire_scale fire_reset

lemma fire_keeps_view:
  "\<exists>v. fire a \<lparr>cell = s, tree = view c\<rparr> = Inr \<lparr>cell = Some v, tree = view c\<rparr>"
  by (cases a) (simp_all add: fire_view)

lemma fire_any_cell:
  "fire a \<lparr>cell = s, tree = view c\<rparr> = fire a \<lparr>cell = s', tree = view c\<rparr>"
  by (cases a) (simp_all add: fire_view)

lemma click_increment:
  "click increment \<lparr>cell = s, tree = view c\<rparr> = Inr (rendered (js_add c (Fin 1)))"
  by (simp add: click_def fire_increment render_Some)

lemma click_scale:
  "click scale \<lparr>cell = s, tree = view c\<rparr> = Inr (rendered (js_mul c (Fin 5)))"
  by (simp add: click_def fire_scale render_Some)

lemma click_reset:
  "click reset \<lparr>cell = s, tree = view c\<rparr> = Inr (rendered (Fin 0))"
  by (simp add: click_def fire_reset render_Some)

lemmas click_view = click_increment click_scale click_reset

lemmas click_rendered = click_view [where s = "Some c" and c = c for c, folded rendered_def]

lemma click_safe:
  assumes "\<bar>transition a c\<bar> < 2 ^ 53"
  shows "click a (rendered (Fin c)) = Inr (rendered (Fin (transition a c)))"
proof (cases a)
  case increment
  with assms show ?thesis by (simp add: click_rendered round_double_exact)
next
  case scale
  with assms show ?thesis by (simp add: click_rendered round_double_exact)
next
  case reset
  then show ?thesis by (simp add: click_rendered)
qed




section \<open>Sequences of activations\<close>

lemma fire_all_view:
  "\<exists>s'. fire_all as \<lparr>cell = s, tree = view c\<rparr> = Inr \<lparr>cell = s', tree = view c\<rparr>"
proof (induction as arbitrary: s)
  case Nil
  show ?case by simp
next
  case (Cons a as)
  obtain v where "fire a \<lparr>cell = s, tree = view c\<rparr> = Inr \<lparr>cell = Some v, tree = view c\<rparr>"
    using fire_keeps_view by blast
  with Cons.IH [of "Some v"] show ?case by simp
qed

lemma fire_all_snoc:
  "fire_all (as @ [a]) i =
     (case fire_all as i of Inl e \<Rightarrow> Inl e | Inr i' \<Rightarrow> fire a i')"
  by (induction as arbitrary: i) (simp_all split: sum.splits)

lemma fire_all_last:
  "fire_all (as @ [a]) \<lparr>cell = s, tree = view c\<rparr> = fire a \<lparr>cell = s, tree = view c\<rparr>"
proof -
  obtain s' where "fire_all as \<lparr>cell = s, tree = view c\<rparr> = Inr \<lparr>cell = s', tree = view c\<rparr>"
    using fire_all_view by blast
  then have "fire_all (as @ [a]) \<lparr>cell = s, tree = view c\<rparr> = fire a \<lparr>cell = s', tree = view c\<rparr>"
    by (simp add: fire_all_snoc)
  then show ?thesis by (simp add: fire_any_cell [of a s' c s])
qed

lemma run_safe:
  assumes "\<forall>p \<in> set (prefixes as). \<bar>foldl (\<lambda>c a. transition a c) c p\<bar> < 2 ^ 53"
  shows "run as (rendered (Fin c)) = Inr (rendered (Fin (foldl (\<lambda>c a. transition a c) c as)))"
  using assms
proof (induction as arbitrary: c)
  case Nil
  show ?case by simp
next
  case (Cons a as)
  from Cons.prems have "\<bar>foldl (\<lambda>c a. transition a c) c [a]\<bar> < 2 ^ 53"
    by (simp del: foldl_Cons foldl_Nil)
  then have first: "\<bar>transition a c\<bar> < 2 ^ 53" by simp
  from Cons.prems
  have rest: "\<forall>p \<in> set (prefixes as). \<bar>foldl (\<lambda>c a. transition a c) (transition a c) p\<bar> < 2 ^ 53"
    by simp
  show ?case
    by (simp add: click_safe [OF first] Cons.IH [OF rest])
qed

lemma prefixes_closed: "p \<in> set (prefixes as) \<Longrightarrow> q \<in> set (prefixes p) \<Longrightarrow> q \<in> set (prefixes as)"
  by (auto simp: in_set_prefixes intro: prefix_order.order_trans)

section \<open>The claims\<close>

text \<open>
  C1, as stated, fails. After one increment fired from the first render the cell holds 1;
  a second increment fired before any re-render writes 1 again, not 2: the callback adds
  to the \<open>count\<close> of the render that created it.
\<close>

theorem second_activation_reads_stale_count:
  "mount = Inr (rendered (Fin 0)) \<and>
   fire increment (rendered (Fin 0)) = Inr \<lparr>cell = Some (Fin 1), tree = view (Fin 0)\<rparr> \<and>
   fire increment \<lparr>cell = Some (Fin 1), tree = view (Fin 0)\<rparr> =
     Inr \<lparr>cell = Some (Fin 1), tree = view (Fin 0)\<rparr> \<and>
   fire increment \<lparr>cell = Some (Fin 1), tree = view (Fin 0)\<rparr> \<noteq>
     Inr \<lparr>cell = Some (Fin 2), tree = view (Fin 0)\<rparr>"
  by (simp add: mount_rendered rendered_def fire_view round_double_exact)

text \<open>
  C1, amended: for every activation of a transition callback, the next state is computed
  from the value of \<open>count\<close> that the render which created the callback read from the
  cell, whatever the cell holds at the moment the callback fires. A render that reads \<open>c\<close>
  leaves three buttons; fired with any live value \<open>v\<close> in the cell, they write \<open>c + 1\<close>,
  \<open>c * 5\<close> and \<open>0\<close>.
\<close>

theorem callbacks_compute_from_captured_count:
  "render (Some c) = Inr (rendered c) \<and>
   fire increment ((rendered c)\<lparr>cell := Some v\<rparr>) =
     Inr ((rendered c)\<lparr>cell := Some (js_add c (Fin 1))\<rparr>) \<and>
   fire scale ((rendered c)\<lparr>cell := Some v\<rparr>) =
     Inr ((rendered c)\<lparr>cell := Some (js_mul c (Fin 5))\<rparr>) \<and>
   fire reset ((rendered c)\<lparr>cell := Some v\<rparr>) =
     Inr ((rendered c)\<lparr>cell := Some (Fin 0)\<rparr>)"
  by (simp add: render_Some rendered_def fire_view)

text \<open>
  C2, as stated, fails, in two ways. Two increments dispatched before one render display
  1, while the fold is 2. And with a render after each activation, one increment and
  twenty-three scales fold to \<open>5^23 = 11920928955078125\<close>, which is not a double; the
  twenty-third \<open>count * 5\<close> rounds to \<open>11920928955078124\<close>, and that is displayed.
\<close>

theorem display_differs_from_fold:
  "mount = Inr (rendered (Fin 0)) \<and>
   batch [increment, increment] (rendered (Fin 0)) = Inr (rendered (Fin 1)) \<and>
   displayed (tree (rendered (Fin 1))) = [Fin 1] \<and>
   fold_transitions [increment, increment] = 2 \<and>
   display_after
     [increment, scale, scale, scale, scale, scale, scale, scale, scale, scale, scale, scale,
      scale, scale, scale, scale, scale, scale, scale, scale, scale, scale, scale, scale] =
     Inr [Fin 11920928955078124] \<and>
   fold_transitions
     [increment, scale, scale, scale, scale, scale, scale, scale, scale, scale, scale, scale,
      scale, scale, scale, scale, scale, scale, scale, scale, scale, scale, scale, scale] =
     11920928955078125"
proof -
  have "batch [increment, increment] (rendered (Fin 0)) = Inr (rendered (Fin 1))"
    by (simp add: batch_def rendered_def fire_view render_Some round_double_exact)
  moreover have "displayed (tree (rendered (Fin 1))) = [Fin 1]"
    by (simp add: rendered_def displayed_view)
  moreover have "display_after
     [increment, scale, scale, scale, scale, scale, scale, scale, scale, scale, scale, scale,
      scale, scale, scale, scale, scale, scale, scale, scale, scale, scale, scale, scale] =
     Inr [Fin 11920928955078124]"
    by (simp add: display_after_def session_def mount_rendered click_rendered displayed_view
        rendered_def [of "Fin 11920928955078124"] round_double_def round53_def bitlen.simps
        Let_def)
  ultimately show ?thesis
    by (simp add: mount_rendered fold_transitions_def)
qed

text \<open>
  C2, amended: for every finite sequence of activations (each chosen from increment,
  scale, reset) in which every activation is followed by a render before the next one
  is dispatched, and whose left-to-right fold from 0 stays below \<open>2^53\<close> in magnitude at
  every prefix, the state value displayed after each render equals the fold of the
  corresponding transition functions (\<open>+1\<close>, \<open>*5\<close>, to 0) over the initial value 0.
  \<open>display_after\<close> is that schedule: a \<open>click\<close> is one activation and then a render.
\<close>

theorem display_is_fold_of_transitions:
  assumes "\<forall>p \<in> set (prefixes as). \<bar>fold_transitions p\<bar> < 2 ^ 53"
  shows "\<forall>p \<in> set (prefixes as). display_after p = Inr [Fin (fold_transitions p)]"
proof
  fix p
  assume p: "p \<in> set (prefixes as)"
  have "\<forall>q \<in> set (prefixes p). \<bar>foldl (\<lambda>c a. transition a c) 0 q\<bar> < 2 ^ 53"
    using assms p prefixes_closed [of p as] by (auto simp: fold_transitions_def)
  then have "run p (rendered (Fin 0)) = Inr (rendered (Fin (foldl (\<lambda>c a. transition a c) 0 p)))"
    by (rule run_safe)
  then show "display_after p = Inr [Fin (fold_transitions p)]"
    by (simp add: display_after_def session_def mount_rendered fold_transitions_def
        rendered_def displayed_view)
qed

theorem display_is_fold_of_transitions_witness:
  "\<bar>fold_transitions []\<bar> < 2 ^ 53 \<and>
   \<bar>fold_transitions [increment]\<bar> < 2 ^ 53 \<and>
   \<bar>fold_transitions [increment, increment]\<bar> < 2 ^ 53 \<and>
   \<bar>fold_transitions [increment, increment, scale]\<bar> < 2 ^ 53 \<and>
   \<bar>fold_transitions [increment, increment, scale, reset]\<bar> < 2 ^ 53 \<and>
   display_after [] = Inr [Fin 0] \<and>
   display_after [increment] = Inr [Fin 1] \<and>
   display_after [increment, increment] = Inr [Fin 2] \<and>
   display_after [increment, increment, scale] = Inr [Fin 10] \<and>
   display_after [increment, increment, scale, reset] = Inr [Fin 0]"
proof -
  have h: "\<forall>p \<in> set (prefixes [increment, increment, scale, reset]). \<bar>fold_transitions p\<bar> < 2 ^ 53"
    by (simp add: fold_transitions_def)
  show ?thesis
    using h display_is_fold_of_transitions [OF h] by (simp add: fold_transitions_def)
qed

text \<open>
  C3, as stated, fails, in two ways. The state \<open>5^22 = 2384185791015625\<close> is reached by
  one increment and twenty-two scales; the scale transition fired there writes
  \<open>11920928955078124\<close>, while \<open>2384185791015625 * 5 = 11920928955078125\<close>. And when the
  cell holds 1 under the tree of the render that read 0, the increment transition writes
  1, not 2.
\<close>

theorem transitions_at_5_pow_22_and_stale_count:
  "display_after
     [increment, scale, scale, scale, scale, scale, scale, scale, scale, scale, scale, scale,
      scale, scale, scale, scale, scale, scale, scale, scale, scale, scale, scale] =
     Inr [Fin 2384185791015625] \<and>
   fire scale (rendered (Fin 2384185791015625)) =
     Inr ((rendered (Fin 2384185791015625))\<lparr>cell := Some (Fin 11920928955078124)\<rparr>) \<and>
   fire scale (rendered (Fin 2384185791015625)) \<noteq>
     Inr ((rendered (Fin 2384185791015625))\<lparr>cell := Some (Fin (2384185791015625 * 5))\<rparr>) \<and>
   fire increment (rendered (Fin 0)) = Inr ((rendered (Fin 0))\<lparr>cell := Some (Fin 1)\<rparr>) \<and>
   fire increment ((rendered (Fin 0))\<lparr>cell := Some (Fin 1)\<rparr>) =
     Inr ((rendered (Fin 0))\<lparr>cell := Some (Fin 1)\<rparr>) \<and>
   fire increment ((rendered (Fin 0))\<lparr>cell := Some (Fin 1)\<rparr>) \<noteq>
     Inr ((rendered (Fin 0))\<lparr>cell := Some (Fin (1 + 1))\<rparr>)"
  by (simp add: display_after_def session_def mount_rendered click_view displayed_view
      rendered_def fire_view round_double_def round53_def bitlen.simps Let_def)

text \<open>
  C3, amended: let \<open>c\<close> be the state value that the render which created the callbacks
  read from the cell; it is the current state value as long as no activation has fired
  since that render. Whatever the cell holds when the callback fires (\<open>v\<close>), for every
  integer \<open>c\<close> the increment transition produces \<open>c + 1\<close> when \<open>c + 1\<close> is below \<open>2^53\<close>
  in magnitude and the scale transition produces \<open>c * 5\<close> when \<open>c * 5\<close> is below \<open>2^53\<close>
  in magnitude; for every state value the reset transition produces 0; and scale applied
  to state 0 produces 0.
\<close>

theorem transitions_on_safe_integers:
  "(\<bar>c + 1\<bar> < 2 ^ 53 \<longrightarrow>
      fire increment ((rendered (Fin c))\<lparr>cell := Some v\<rparr>) =
        Inr ((rendered (Fin c))\<lparr>cell := Some (Fin (c + 1))\<rparr>)) \<and>
   (\<bar>c * 5\<bar> < 2 ^ 53 \<longrightarrow>
      fire scale ((rendered (Fin c))\<lparr>cell := Some v\<rparr>) =
        Inr ((rendered (Fin c))\<lparr>cell := Some (Fin (c * 5))\<rparr>)) \<and>
   fire reset ((rendered d)\<lparr>cell := Some v\<rparr>) = Inr ((rendered d)\<lparr>cell := Some (Fin 0)\<rparr>) \<and>
   fire scale (rendered (Fin 0)) = Inr ((rendered (Fin 0))\<lparr>cell := Some (Fin 0)\<rparr>)"
  by (simp add: rendered_def fire_view round_double_exact)

theorem transitions_on_safe_integers_witness:
  "\<bar>(7::int) + 1\<bar> < 2 ^ 53 \<and>
   fire increment (rendered (Fin 7)) = Inr ((rendered (Fin 7))\<lparr>cell := Some (Fin 8)\<rparr>) \<and>
   \<bar>(7::int) * 5\<bar> < 2 ^ 53 \<and>
   fire scale (rendered (Fin 7)) = Inr ((rendered (Fin 7))\<lparr>cell := Some (Fin 35)\<rparr>) \<and>
   fire reset (rendered PosInf) = Inr ((rendered PosInf)\<lparr>cell := Some (Fin 0)\<rparr>)"
  using transitions_on_safe_integers [of 7 "Fin 7" PosInf]
    transitions_on_safe_integers [of 7 PosInf PosInf]
  by (simp add: rendered_def)

text \<open>
  C4: for every binding of a callback and a label, what \<open>CounterButton\<close> returns for it
  is one \<open>button\<close> element; the tree has exactly one \<open>onClick\<close> value, which is the
  given callback itself, and displays exactly the label string. The order in which the
  two properties are written does not matter, and the runtime, rendering a
  \<open>CounterButton\<close> element that carries the binding, gets the same tree.
\<close>

theorem CounterButton_renders_binding:
  "CounterButton (Obj [(''numberFunction'', Fn callback), (''buttonLabel'', Str label)]) =
     Inr (Host ''button'' [(''onClick'', Fn callback)] [Embed (Str label)]) \<and>
   CounterButton (Obj [(''buttonLabel'', Str label), (''numberFunction'', Fn callback)]) =
     Inr (Host ''button'' [(''onClick'', Fn callback)] [Embed (Str label)]) \<and>
   expand (CounterButtonElement [(''numberFunction'', Fn callback), (''buttonLabel'', Str label)]) =
     Inr (Host ''button'' [(''onClick'', Fn callback)] [Embed (Str label)]) \<and>
   elements ''button'' (Host ''button'' [(''onClick'', Fn callback)] [Embed (Str label)]) =
     [Host ''button'' [(''onClick'', Fn callback)] [Embed (Str label)]] \<and>
   listeners (Host ''button'' [(''onClick'', Fn callback)] [Embed (Str label)]) = [Fn callback] \<and>
   leaves (Host ''button'' [(''onClick'', Fn callback)] [Embed (Str label)]) = [Str label]"
  by (simp add: CounterButton_def prop_of_def)

text \<open>
  C5, as stated, fails: increment then scale, both dispatched from state 0 before the
  next render, leave 0, not 5.
\<close>

theorem increment_then_scale_without_render:
  "mount = Inr (rendered (Fin 0)) \<and>
   fire_all [increment, scale] (rendered (Fin 0)) =
     Inr ((rendered (Fin 0))\<lparr>cell := Some (Fin 0)\<rparr>) \<and>
   batch [increment, scale] (rendered (Fin 0)) = Inr (rendered (Fin 0)) \<and>
   displayed (tree (rendered (Fin 0))) = [Fin 0] \<and>
   Fin 0 \<noteq> Fin 5"
  by (simp add: mount_rendered batch_def rendered_def fire_view render_Some displayed_view
      round_double_exact)

text \<open>
  C5, amended: increment and scale do not commute. When a render follows each
  activation, increment then scale from state 0 yields 5 and scale then increment yields
  1; when both activations are dispatched before the next render, increment then scale
  leaves 0 and scale then increment leaves 1. On either schedule the two orders give
  different results.
\<close>

theorem increment_scale_do_not_commute:
  "display_after [increment, scale] = Inr [Fin 5] \<and>
   display_after [scale, increment] = Inr [Fin 1] \<and>
   display_after [increment, scale] \<noteq> display_after [scale, increment] \<and>
   batch [increment, scale] (rendered (Fin 0)) = Inr (rendered (Fin 0)) \<and>
   batch [scale, increment] (rendered (Fin 0)) = Inr (rendered (Fin 1)) \<and>
   batch [increment, scale] (rendered (Fin 0)) \<noteq> batch [scale, increment] (rendered (Fin 0))"
  by (simp add: display_after_def session_def mount_rendered click_view displayed_view
      batch_def fire_view render_Some rendered_def round_double_exact)

text \<open>
  C6: reset is idempotent. From every starting state (any cell content, the tree of any
  render), after each of \<open>n + 1\<close> resets in a row the state is 0: with a render after
  each click the counter is the one rendered at 0, and with no render in between the
  cell holds 0.
\<close>

theorem reset_idempotent:
  "run (replicate (Suc n) reset) \<lparr>cell = s, tree = view c\<rparr> = Inr (rendered (Fin 0)) \<and>
   fire_all (replicate (Suc n) reset) \<lparr>cell = s, tree = view c\<rparr> =
     Inr \<lparr>cell = Some (Fin 0), tree = view c\<rparr>"
proof
  show "run (replicate (Suc n) reset) \<lparr>cell = s, tree = view c\<rparr> = Inr (rendered (Fin 0))"
  proof (induction n arbitrary: s c)
    case 0
    show ?case by (simp add: click_view)
  next
    case (Suc n)
    have "run (replicate (Suc (Suc n)) reset) \<lparr>cell = s, tree = view c\<rparr> =
        run (replicate (Suc n) reset) (rendered (Fin 0))"
      by (simp add: click_view)
    also have "\<dots> = Inr (rendered (Fin 0))"
      using Suc.IH [of "Some (Fin 0)" "Fin 0"] by (simp add: rendered_def)
    finally show ?case .
  qed
next
  show "fire_all (replicate (Suc n) reset) \<lparr>cell = s, tree = view c\<rparr> =
      Inr \<lparr>cell = Some (Fin 0), tree = view c\<rparr>"
  proof (induction n arbitrary: s)
    case 0
    show ?case by (simp add: fire_view)
  next
    case (Suc n)
    have "fire_all (replicate (Suc (Suc n)) reset) \<lparr>cell = s, tree = view c\<rparr> =
        fire_all (replicate (Suc n) reset) \<lparr>cell = Some (Fin 0), tree = view c\<rparr>"
      by (simp add: fire_view)
    then show ?case by (simp only: Suc.IH)
  qed
qed

text \<open>
  C7: for every state value \<open>c\<close> in the cell, the tree \<open>Counter\<close> returns has one heading,
  one text line that shows \<open>c\<close>, and exactly three \<open>CounterButton\<close> elements, bound in
  order to \<open>addNumber\<close> (writes \<open>c + 1\<close>), \<open>multNumber\<close> (writes \<open>c * 5\<close>) and
  \<open>resetNumber\<close> (writes 0), with the labels \<open>++\<close>, \<open>*=5\<close> and \<open>=0\<close>. The render leaves
  the cell as it was; the first render reads the initial value 0.
\<close>

theorem Counter_view_tree:
  "elements ''h2'' (fst (Counter (Some c))) = [Host ''h2'' [] [Text ''React Counter'']] \<and>
   elements ''p'' (fst (Counter (Some c))) =
     [Host ''p'' [(''className'', Str ''click_desc'')]
        [Text ''Your count: '', Host ''span'' [] [Embed (Num c)]]] \<and>
   displayed (fst (Counter (Some c))) = [c] \<and>
   bindings (fst (Counter (Some c))) =
     [[(''numberFunction'', Fn (addNumber c setter)), (''buttonLabel'', Str ''++'')],
      [(''numberFunction'', Fn (multNumber c setter)), (''buttonLabel'', Str ''*=5'')],
      [(''numberFunction'', Fn (resetNumber setter)), (''buttonLabel'', Str ''=0'')]] \<and>
   addNumber c setter s = Some (js_add c (Fin 1)) \<and>
   multNumber c setter s = Some (js_mul c (Fin 5)) \<and>
   resetNumber setter s = Some (Fin 0) \<and>
   snd (Counter (Some c)) = Some c \<and>
   Counter None = Counter (Some (Fin 0))"
  by (simp add: Counter_def useState_def displayed_def addNumber_def multNumber_def
      resetNumber_def setter_def)



text \<open>
  C10: the three callbacks of one render compute from the state value captured at that
  render. With no render in between, any non-empty sequence of activations fired on the
  counter as a render at \<open>c\<close> left it ends in the state the last activation alone
  produces from \<open>c\<close>; \<open>k + 1\<close> increments in a row leave \<open>c + 1\<close> in the cell.
\<close>

theorem activations_without_render:
  "render (Some c) = Inr (rendered c) \<and>
   fire_all (as @ [a]) (rendered c) = fire a (rendered c) \<and>
   fire_all (replicate (Suc k) increment) (rendered c) =
     Inr ((rendered c)\<lparr>cell := Some (js_add c (Fin 1))\<rparr>)"
proof -
  have "replicate (Suc k) increment = replicate k increment @ [increment]"
    by (simp add: replicate_append_same)
  then have "fire_all (replicate (Suc k) increment) (rendered c) = fire increment (rendered c)"
    by (simp only: rendered_def fire_all_last)
  then show ?thesis
    by (simp add: render_Some rendered_def fire_all_last fire_view)
qed

end
